theory Spec2Isabelle
  imports Complex_Main "HOL-Library.AList"
begin

section \<open>Stock market dashboard (app1.py)\<close>

text \<open>
  The dashboard script consists of a market-hours classifier, two quote fetchers that
  wrap a market-data provider, a ticker-list builder and a set of cell formatters.
  Each of them is embedded below as a HOL function that follows the Python source
  statement by statement. The wall clock and the provider are inputs of the model.
\<close>

subsection \<open>Market clock\<close>

text \<open>
  \<^verbatim>\<open>is_market_open\<close> reads \<^verbatim>\<open>datetime.now(et_tz)\<close> and uses three accessors of
  the result: \<^verbatim>\<open>weekday()\<close> (Monday is 0, Sunday is 6), \<^verbatim>\<open>hour\<close> and \<^verbatim>\<open>minute\<close>. The
  Eastern-time reading of the clock is the argument of the model.

  \<^verbatim>\<open>current_time_float\<close> is a Python float. For an hour below 24 and a minute below 60
  the sum \<^verbatim>\<open>hour + minute/60\<close> compares with the bounds 4, 9.5, 16 and 20 (all of them
  exact binary fractions) as the exact rational does, so the model computes over
  \<^typ>\<open>rat\<close>.
\<close>

record datetime =
  weekday :: nat
  hour :: nat
  minute :: nat

definition is_market_open :: "datetime \<Rightarrow> bool \<times> string" where
  "is_market_open current_time =
     (if weekday current_time \<ge> 5 then (False, ''Market is closed (Weekend)'')
      else
        let current_hour = hour current_time;
            current_minute = minute current_time;
            current_time_float = (of_nat current_hour :: rat) + of_nat current_minute / 60
        in
          if 4 \<le> current_time_float \<and> current_time_float < 19 / 2
            then (True, ''Pre-market hours (4:00 AM - 9:30 AM ET)'')
          else if 19 / 2 \<le> current_time_float \<and> current_time_float < 16
            then (True, ''Regular market hours (9:30 AM - 4:00 PM ET)'')
          else if 16 \<le> current_time_float \<and> current_time_float < 20
            then (True, ''After-hours (4:00 PM - 8:00 PM ET)'')
          else (False, ''Market is closed (Outside trading hours)''))"

text \<open>The fractional hour of a clock reading, as \<^verbatim>\<open>is_market_open\<close> computes it.\<close>

definition time_float :: "datetime \<Rightarrow> rat" where
  "time_float current_time = of_nat (hour current_time) + of_nat (minute current_time) / 60"

subsection \<open>Python values\<close>

text \<open>
  The values that flow through the quote records. A Python \<^verbatim>\<open>float\<close> (and a numpy
  \<^verbatim>\<open>float64\<close>, which is a subclass of it) is an IEEE double: a finite double is
  modelled by the rational it denotes, next to NaN and the two infinities
  (\<open>Inf True\<close> is the positive one). Operations and the conversion of an int to a
  float are exact in the model: the rounding of a result to the nearest double, the
  overflow of a finite result and the sign of zero are not modelled.
\<close>

datatype pyfloat = Fin rat | NaN | Inf bool

datatype pyval = PyNone | PyInt int | PyFloat pyfloat | PyStr string

text \<open>A dict with string keys, in insertion order.\<close>

type_synonym pydict = "(string \<times> pyval) list"

datatype exn = ProviderError | TypeError | ZeroDivisionError

text \<open>\<^verbatim>\<open>d.get(key)\<close>: the value stored under the key, \<^verbatim>\<open>None\<close> when there is none.\<close>

definition dict_get :: "pydict \<Rightarrow> string \<Rightarrow> pyval" where
  "dict_get d key = (case map_of d key of None \<Rightarrow> PyNone | Some v \<Rightarrow> v)"

text \<open>The truth value of an object, as \<^verbatim>\<open>if\<close> and \<^verbatim>\<open>and\<close> test it.\<close>

fun truthy :: "pyval \<Rightarrow> bool" where
  "truthy PyNone = False"
| "truthy (PyInt n) = (n \<noteq> 0)"
| "truthy (PyFloat (Fin q)) = (q \<noteq> 0)"
| "truthy (PyFloat NaN) = True"
| "truthy (PyFloat (Inf s)) = True"
| "truthy (PyStr s) = (s \<noteq> [])"

text \<open>IEEE subtraction, division and multiplication of doubles.\<close>

fun fsub :: "pyfloat \<Rightarrow> pyfloat \<Rightarrow> pyfloat" where
  "fsub (Fin a) (Fin b) = Fin (a - b)"
| "fsub NaN y = NaN"
| "fsub x NaN = NaN"
| "fsub (Inf s) (Inf t) = (if s = t then NaN else Inf s)"
| "fsub (Inf s) (Fin b) = Inf s"
| "fsub (Fin a) (Inf t) = Inf (\<not> t)"

fun fdiv :: "pyfloat \<Rightarrow> pyfloat \<Rightarrow> pyfloat" where
  "fdiv (Fin a) (Fin b) =
     (if b = 0 then (if a = 0 then NaN else Inf (0 < a)) else Fin (a / b))"
| "fdiv NaN y = NaN"
| "fdiv x NaN = NaN"
| "fdiv (Inf s) (Inf t) = NaN"
| "fdiv (Inf s) (Fin b) = Inf (s = (0 \<le> b))"
| "fdiv (Fin a) (Inf t) = Fin 0"

fun fmul :: "pyfloat \<Rightarrow> pyfloat \<Rightarrow> pyfloat" where
  "fmul (Fin a) (Fin b) = Fin (a * b)"
| "fmul NaN y = NaN"
| "fmul x NaN = NaN"
| "fmul (Inf s) (Inf t) = Inf (s = t)"
| "fmul (Inf s) (Fin b) = (if b = 0 then NaN else Inf (s = (0 < b)))"
| "fmul (Fin a) (Inf t) = (if a = 0 then NaN else Inf (t = (0 < a)))"

text \<open>The float operand that a number contributes to a mixed operation.\<close>

fun as_float :: "pyval \<Rightarrow> pyfloat option" where
  "as_float (PyInt n) = Some (Fin (of_int n))"
| "as_float (PyFloat x) = Some x"
| "as_float PyNone = None"
| "as_float (PyStr s) = None"

text \<open>
  The operators \<^verbatim>\<open>-\<close> and \<^verbatim>\<open>/\<close> on Python objects: two ints subtract to an int, any
  other pair of numbers goes through floats, \<^verbatim>\<open>/\<close> is true division, whose result is
  a float and which raises on a zero divisor, and an operand that is not a number
  raises \<^verbatim>\<open>TypeError\<close>.
\<close>

fun py_sub :: "pyval \<Rightarrow> pyval \<Rightarrow> exn + pyval" where
  "py_sub (PyInt a) (PyInt b) = Inr (PyInt (a - b))"
| "py_sub x y =
     (case (as_float x, as_float y) of
        (Some a, Some b) \<Rightarrow> Inr (PyFloat (fsub a b))
      | _ \<Rightarrow> Inl TypeError)"

definition py_div :: "pyval \<Rightarrow> pyval \<Rightarrow> exn + pyfloat" where
  "py_div x y =
     (case (as_float x, as_float y) of
        (Some a, Some b) \<Rightarrow>
          if b = Fin 0 then Inl ZeroDivisionError else Inr (fdiv a b)
      | _ \<Rightarrow> Inl TypeError)"

subsection \<open>Quote fetcher\<close>

text \<open>
  The market-data provider is a parameter. \<open>history yf s\<close> is what
  \<^verbatim>\<open>yf.Ticker(s).history(period='2d')\<close> gives: an exception, or the rows of the data
  frame, oldest first, each with its \<^verbatim>\<open>Close\<close> (a float64) and \<^verbatim>\<open>Volume\<close> (an int64).
  \<open>info yf s\<close> is what \<^verbatim>\<open>yf.Ticker(s).info\<close> gives: an exception, or the snapshot dict.
\<close>

record bar =
  Close :: pyfloat
  Volume :: int

record provider =
  history :: "string \<Rightarrow> exn + bar list"
  info :: "string \<Rightarrow> exn + pydict"

text \<open>
  \<^verbatim>\<open>get_premarket_price\<close>. The whole body is inside \<^verbatim>\<open>try\<close>, and every exception takes
  the \<^verbatim>\<open>except\<close> branch, which returns the record \<open>premarket_failed\<close>.
  \<^verbatim>\<open>result['Price']\<close> and \<^verbatim>\<open>result['Previous Close']\<close> read back what the dict
  literal stored; the two assignments add the keys \<^verbatim>\<open>Change\<close> and \<^verbatim>\<open>Change%\<close>. The
  quotient is a float, and its product with the int 100 is the float product with
  100.0.
\<close>

definition premarket_failed :: "string \<Rightarrow> pydict" where
  "premarket_failed ticker_symbol =
     [(''Ticker'', PyStr ticker_symbol),
      (''Price'', PyNone),
      (''Regular Market Price'', PyNone),
      (''Previous Close'', PyNone),
      (''Change'', PyNone),
      (''Change%'', PyNone)]"

definition get_premarket_price :: "provider \<Rightarrow> string \<Rightarrow> pydict" where
  "get_premarket_price yf ticker_symbol =
     (case info yf ticker_symbol of
        Inl e \<Rightarrow> premarket_failed ticker_symbol
      | Inr market_data \<Rightarrow>
          let result =
                [(''Ticker'', PyStr ticker_symbol),
                 (''Price'', dict_get market_data ''preMarketPrice''),
                 (''Regular Market Price'', dict_get market_data ''regularMarketPrice''),
                 (''Previous Close'', dict_get market_data ''previousClose'')]
          in
            if truthy (dict_get result ''Price'') \<and> truthy (dict_get result ''Previous Close'')
            then
              (case py_sub (dict_get result ''Price'') (dict_get result ''Previous Close'') of
                 Inl e \<Rightarrow> premarket_failed ticker_symbol
               | Inr change \<Rightarrow>
                   let result = AList.update ''Change'' change result in
                   (case py_div (dict_get result ''Change'') (dict_get result ''Previous Close'') of
                      Inl e \<Rightarrow> premarket_failed ticker_symbol
                    | Inr ratio \<Rightarrow>
                        AList.update ''Change%'' (PyFloat (fmul ratio (Fin 100))) result))
            else AList.update ''Change%'' PyNone (AList.update ''Change'' PyNone result))"

text \<open>
  \<^verbatim>\<open>get_market_price\<close>. The \<^verbatim>\<open>if not hist.empty\<close> has no \<^verbatim>\<open>else\<close> and nothing follows
  the \<^verbatim>\<open>try\<close> statement, so on an empty frame the function ends without a \<^verbatim>\<open>return\<close>
  and its value is Python's \<^verbatim>\<open>None\<close>: the result is an optional record.
  The closes are numpy floats, whose division by zero gives NaN or an infinity and a
  warning, not an exception. \<^verbatim>\<open>iloc[-1]\<close> is the last row and \<^verbatim>\<open>iloc[-2]\<close>, read only
  when there are two rows or more, the one before it.
\<close>

definition market_failed :: "string \<Rightarrow> pydict" where
  "market_failed ticker_symbol =
     [(''Ticker'', PyStr ticker_symbol),
      (''Price'', PyNone),
      (''Change'', PyNone),
      (''Change%'', PyNone),
      (''Volume'', PyNone)]"

definition get_market_price :: "provider \<Rightarrow> string \<Rightarrow> pydict option" where
  "get_market_price yf ticker_symbol =
     (case history yf ticker_symbol of
        Inl e \<Rightarrow> Some (market_failed ticker_symbol)
      | Inr hist \<Rightarrow>
          if hist \<noteq> [] then
            let current = Close (hist ! (length hist - 1));
                prev = (if length hist > 1 then Close (hist ! (length hist - 2)) else current);
                change = fsub current prev;
                change_percent = fmul (fdiv change prev) (Fin 100)
            in Some [(''Ticker'', PyStr ticker_symbol),
                     (''Price'', PyFloat current),
                     (''Change'', PyFloat change),
                     (''Change%'', PyFloat change_percent),
                     (''Volume'', PyInt (Volume (hist ! (length hist - 1))))]
          else None)"




subsection \<open>Ticker list builder\<close>

text \<open>
  The string methods that \<^verbatim>\<open>main\<close> calls on the text input, on ASCII text: \<^verbatim>\<open>upper\<close>
  maps the letters a to z to A to Z, \<^verbatim>\<open>strip\<close> removes the white space at both ends
  (tab, line feed, vertical tab, form feed, carriage return, the four separators
  0x1C to 0x1F and the space), and \<^verbatim>\<open>split(',')\<close> cuts at every comma and keeps empty
  pieces, so that the empty string splits into one empty piece.
\<close>

definition upper_char :: "char \<Rightarrow> char" where
  "upper_char c =
     (case map_of (zip ''abcdefghijklmnopqrstuvwxyz'' ''ABCDEFGHIJKLMNOPQRSTUVWXYZ'') c of
        None \<Rightarrow> c
      | Some u \<Rightarrow> u)"

definition upper :: "string \<Rightarrow> string" where
  "upper s = map upper_char s"

definition isspace :: "char \<Rightarrow> bool" where
  "isspace c =
     (c \<in> set [CHR 0x09, CHR 0x0A, CHR 0x0B, CHR 0x0C, CHR 0x0D,
               CHR 0x1C, CHR 0x1D, CHR 0x1E, CHR 0x1F, CHR 0x20])"

definition strip :: "string \<Rightarrow> string" where
  "strip s = rev (dropWhile isspace (rev (dropWhile isspace s)))"

fun py_split :: "char \<Rightarrow> string \<Rightarrow> string list" where
  "py_split sep [] = [[]]"
| "py_split sep (c # cs) =
     (if c = sep then [] # py_split sep cs
      else (case py_split sep cs of
              piece # pieces \<Rightarrow> (c # piece) # pieces
            | [] \<Rightarrow> [[c]]))"

text \<open>
  \<^verbatim>\<open>list(dict.fromkeys(xs))\<close>: the keys are inserted one by one, a key that is already
  in the dict keeps its place, and the list of the dict gives the keys in insertion
  order.
\<close>

definition fromkeys :: "'a list \<Rightarrow> 'a list" where
  "fromkeys xs = fold (\<lambda>k d. if k \<in> set d then d else d @ [k]) xs []"

definition default_tickers :: "string list" where
  "default_tickers =
     [''NVDA'', ''AAPL'', ''GOOGL'', ''MSFT'', ''META'',
      ''TSLA'', ''AMD'', ''AMZN'', ''NFLX'', ''INTC'',
      ''SOUN'', ''PLTR'', ''AVGO'', ''RGTI'', ''IONQ'']"

text \<open>
  The ticker list of \<^verbatim>\<open>main\<close>, from the default list and the raw text of the input
  field. The text is upper-cased as a whole before it is tested and split.
\<close>

definition all_tickers :: "string list \<Rightarrow> string \<Rightarrow> string list" where
  "all_tickers defaults text_input =
     (let new_tickers = upper text_input;
          tickers = defaults;
          tickers =
            (if new_tickers \<noteq> [] then
               let additional_tickers = map strip (py_split CHR '','' new_tickers)
               in tickers @ additional_tickers
             else tickers)
      in fromkeys tickers)"



subsection \<open>Report formatter\<close>














subsection \<open>Reading results back\<close>






section \<open>Properties\<close>

subsection \<open>Market clock\<close>

text \<open>
  C4. On a weekday (Monday to Friday) the classifier decides by half-open intervals of
  the fractional hour \<open>t = hour + minute / 60\<close>: pre-market from 4 up to 9.5, regular
  hours from 9.5 up to 16, after-hours from 16 up to 20, closed otherwise. So 09:29 is
  open with the pre-market label, 09:30 and 15:59 are open with the regular-hours
  label, 16:00 is open with the after-hours label and 20:00 is closed with the
  outside-trading-hours label.
\<close>

theorem is_market_open_boundaries:
  assumes "weekday t < 5"
  shows "is_market_open t =
           (if 4 \<le> time_float t \<and> time_float t < 19 / 2
              then (True, ''Pre-market hours (4:00 AM - 9:30 AM ET)'')
            else if 19 / 2 \<le> time_float t \<and> time_float t < 16
              then (True, ''Regular market hours (9:30 AM - 4:00 PM ET)'')
            else if 16 \<le> time_float t \<and> time_float t < 20
              then (True, ''After-hours (4:00 PM - 8:00 PM ET)'')
            else (False, ''Market is closed (Outside trading hours)''))
       \<and> is_market_open (t\<lparr>hour := 9, minute := 29\<rparr>)
           = (True, ''Pre-market hours (4:00 AM - 9:30 AM ET)'')
       \<and> is_market_open (t\<lparr>hour := 9, minute := 30\<rparr>)
           = (True, ''Regular market hours (9:30 AM - 4:00 PM ET)'')
       \<and> is_market_open (t\<lparr>hour := 15, minute := 59\<rparr>)
           = (True, ''Regular market hours (9:30 AM - 4:00 PM ET)'')
       \<and> is_market_open (t\<lparr>hour := 16, minute := 0\<rparr>)
           = (True, ''After-hours (4:00 PM - 8:00 PM ET)'')
       \<and> is_market_open (t\<lparr>hour := 20, minute := 0\<rparr>)
           = (False, ''Market is closed (Outside trading hours)'')"
  using assms by (simp add: is_market_open_def time_float_def Let_def)

text \<open>A Monday: the five boundary instants, and 04:00, where the pre-market session begins.\<close>

theorem is_market_open_boundaries_witness:
  "is_market_open \<lparr>weekday = 0, hour = 4, minute = 0\<rparr>
       = (True, ''Pre-market hours (4:00 AM - 9:30 AM ET)'')
   \<and> is_market_open \<lparr>weekday = 0, hour = 9, minute = 29\<rparr>
       = (True, ''Pre-market hours (4:00 AM - 9:30 AM ET)'')
   \<and> is_market_open \<lparr>weekday = 0, hour = 9, minute = 30\<rparr>
       = (True, ''Regular market hours (9:30 AM - 4:00 PM ET)'')
   \<and> is_market_open \<lparr>weekday = 0, hour = 15, minute = 59\<rparr>
       = (True, ''Regular market hours (9:30 AM - 4:00 PM ET)'')
   \<and> is_market_open \<lparr>weekday = 0, hour = 16, minute = 0\<rparr>
       = (True, ''After-hours (4:00 PM - 8:00 PM ET)'')
   \<and> is_market_open \<lparr>weekday = 0, hour = 20, minute = 0\<rparr>
       = (False, ''Market is closed (Outside trading hours)'')"
  using is_market_open_boundaries [of "\<lparr>weekday = 0, hour = 4, minute = 0\<rparr>"]
  by (simp add: time_float_def)

text \<open>
  C5, as the source has it. Python's \<^verbatim>\<open>weekday()\<close> is 5 on a Saturday and 6 on a
  Sunday. On those days the classifier returns closed at every time of day, and the
  label it returns is the string \<^verbatim>\<open>Market is closed (Weekend)\<close>.
\<close>

theorem is_market_open_weekend:
  assumes "weekday t = 5 \<or> weekday t = 6"
  shows "is_market_open t = (False, ''Market is closed (Weekend)'')"
  using assms by (auto simp add: is_market_open_def)

theorem is_market_open_weekend_witness:
  "(weekday \<lparr>weekday = 6, hour = 10, minute = 15\<rparr> = 5
      \<or> weekday \<lparr>weekday = 6, hour = 10, minute = 15\<rparr> = 6)
   \<and> is_market_open \<lparr>weekday = 6, hour = 10, minute = 15\<rparr>
       = (False, ''Market is closed (Weekend)'')"
proof -
  have h: "weekday \<lparr>weekday = 6, hour = 10, minute = 15\<rparr> = 5
             \<or> weekday \<lparr>weekday = 6, hour = 10, minute = 15\<rparr> = 6"
    by simp
  show ?thesis using h is_market_open_weekend [OF h] by simp
qed

text \<open>
  C5, as the specification words it, asks for the label \<^verbatim>\<open>Weekend\<close>. On a Saturday
  at noon the label returned is a longer string.
\<close>

theorem is_market_open_weekend_label_counterexample:
  "snd (is_market_open \<lparr>weekday = 5, hour = 12, minute = 0\<rparr>) \<noteq> ''Weekend''"
  by (simp add: is_market_open_def)

text \<open>
  C10. The boolean agrees with the label at every clock reading: it is true exactly on
  a weekday with fractional hour from 4 up to, and not including, 20; exactly when the
  label is one of the three session labels; and it is false exactly when the label is
  one of the two closed labels.
\<close>

theorem is_market_open_flag_label:
  "fst (is_market_open t) = (weekday t < 5 \<and> 4 \<le> time_float t \<and> time_float t < 20)
   \<and> fst (is_market_open t) =
       (snd (is_market_open t) = ''Pre-market hours (4:00 AM - 9:30 AM ET)''
        \<or> snd (is_market_open t) = ''Regular market hours (9:30 AM - 4:00 PM ET)''
        \<or> snd (is_market_open t) = ''After-hours (4:00 PM - 8:00 PM ET)'')
   \<and> (\<not> fst (is_market_open t)) =
       (snd (is_market_open t) = ''Market is closed (Weekend)''
        \<or> snd (is_market_open t) = ''Market is closed (Outside trading hours)'')"
  by (auto simp add: is_market_open_def time_float_def Let_def)

subsection \<open>Quote fetcher\<close>


lemma get_premarket_price_keys:
  "map fst (get_premarket_price yf s) =
     [''Ticker'', ''Price'', ''Regular Market Price'', ''Previous Close'', ''Change'', ''Change%'']"
  by (simp add: get_premarket_price_def premarket_failed_def Let_def split: sum.splits)


lemma get_premarket_price_raises:
  "info yf s = Inl e \<Longrightarrow> get_premarket_price yf s = premarket_failed s"
  by (simp add: get_premarket_price_def)

lemma get_market_price_raises:
  "history yf s = Inl e \<Longrightarrow> get_market_price yf s = Some (market_failed s)"
  by (simp add: get_market_price_def)

lemma get_market_price_no_record:
  "(get_market_price yf s = None) = (history yf s = Inr [])"
  by (simp add: get_market_price_def Let_def split: sum.splits)








text \<open>
  C1. Both fetchers are meant to hand a record with the symbol to the caller whatever
  the provider does, and the pre-market fetcher and the \<^verbatim>\<open>except\<close> branch of the
  regular-market fetcher do (lemmas \<open>get_premarket_price_keys\<close>,
  \<open>get_premarket_price_ticker\<close>, \<open>get_premarket_price_raises\<close> and
  \<open>get_market_price_raises\<close>). When the provider returns an empty history, the
  regular-market fetcher returns no record at all: its value is \<^verbatim>\<open>None\<close>.
\<close>

theorem get_market_price_empty_history:
  "get_market_price \<lparr>history = (\<lambda>s. Inr []), info = (\<lambda>s. Inl ProviderError)\<rparr> ''XYZ'' = None"
  by (simp add: get_market_price_def)




text \<open>
  C7, as the source has it. In regular-market mode, when the provider returns exactly
  one bar and its close is a finite number other than zero, the previous close is that
  bar's close and the record has Change = 0 and Change% = 0.
\<close>

theorem get_market_price_single_bar:
  assumes "history yf s = Inr [b]" and "Close b = Fin q" and "q \<noteq> 0"
  shows "get_market_price yf s =
           Some [(''Ticker'', PyStr s),
                 (''Price'', PyFloat (Fin q)),
                 (''Change'', PyFloat (Fin 0)),
                 (''Change%'', PyFloat (Fin 0)),
                 (''Volume'', PyInt (Volume b))]"
  using assms by (simp add: get_market_price_def Let_def)

theorem get_market_price_single_bar_witness:
  "Close \<lparr>Close = Fin 150, Volume = 1000\<rparr> = Fin 150 \<and> (150 :: rat) \<noteq> 0
   \<and> get_market_price
     \<lparr>history = (\<lambda>s. Inr [\<lparr>Close = Fin 150, Volume = 1000\<rparr>]),
      info = (\<lambda>s. Inl ProviderError)\<rparr> ''AAPL''
   = Some [(''Ticker'', PyStr ''AAPL''),
           (''Price'', PyFloat (Fin 150)),
           (''Change'', PyFloat (Fin 0)),
           (''Change%'', PyFloat (Fin 0)),
           (''Volume'', PyInt 1000)]"
  using get_market_price_single_bar
    [of "\<lparr>history = (\<lambda>s. Inr [\<lparr>Close = Fin 150, Volume = 1000\<rparr>]),
          info = (\<lambda>s. Inl ProviderError)\<rparr>"
        "''AAPL''" "\<lparr>Close = Fin 150, Volume = 1000\<rparr>" 150]
  by simp

text \<open>
  C7, as the specification words it, fails on a single bar whose close is 0.0: the
  change is 0.0 and the division of 0.0 by 0.0 makes Change% a NaN.
\<close>

theorem get_market_price_single_bar_zero_counterexample:
  "get_market_price
     \<lparr>history = (\<lambda>s. Inr [\<lparr>Close = Fin 0, Volume = 1000\<rparr>]),
      info = (\<lambda>s. Inl ProviderError)\<rparr> ''XYZ''
   = Some [(''Ticker'', PyStr ''XYZ''),
           (''Price'', PyFloat (Fin 0)),
           (''Change'', PyFloat (Fin 0)),
           (''Change%'', PyFloat NaN),
           (''Volume'', PyInt 1000)]"
  by (simp add: get_market_price_def Let_def)



subsection \<open>Ticker list builder\<close>















lemmas ticker_eval = all_tickers_def upper_def upper_char_def strip_def isspace_def
  fromkeys_def

text \<open>With an empty input field the ticker list is the default list of \<^verbatim>\<open>main\<close>.\<close>

lemma all_tickers_defaults_only: "all_tickers default_tickers [] = default_tickers"
  by (simp add: ticker_eval default_tickers_def)


subsection \<open>Report formatter\<close>

























end
